theory Spec2Isabelle
  imports Complex_Main
begin

section \<open>Python values\<close>

text \<open>
  A Python \<open>float\<close>.  A finite float is the rational number it denotes; the two
  infinities and NaN are values of their own, since \<open>json.loads\<close> accepts
  \<open>Infinity\<close>, \<open>-Infinity\<close> and \<open>NaN\<close>.  Comparisons are exact.  The rounding of
  \<open>+\<close> and \<open>/\<close> is not modelled: on finite values they are the exact operations
  (the results the theorems below compute, 7.0 and 5.0, are exact in binary64 too).
\<close>

datatype pyfloat = FVal rat | PosInf | NegInf | NaN

text \<open>\<open>x < y\<close> on floats: false as soon as one side is NaN.\<close>

fun flt_lt :: "pyfloat \<Rightarrow> pyfloat \<Rightarrow> bool" where
  "flt_lt NaN _ = False"
| "flt_lt _ NaN = False"
| "flt_lt (FVal a) (FVal b) = (a < b)"
| "flt_lt (FVal a) PosInf = True"
| "flt_lt (FVal a) NegInf = False"
| "flt_lt PosInf _ = False"
| "flt_lt NegInf NegInf = False"
| "flt_lt NegInf _ = True"

text \<open>\<open>x >= y\<close> on floats: false as soon as one side is NaN.\<close>

definition flt_ge :: "pyfloat \<Rightarrow> pyfloat \<Rightarrow> bool" where
  "flt_ge x y = (x \<noteq> NaN \<and> y \<noteq> NaN \<and> \<not> flt_lt x y)"

fun flt_add :: "pyfloat \<Rightarrow> pyfloat \<Rightarrow> pyfloat" where
  "flt_add NaN _ = NaN"
| "flt_add _ NaN = NaN"
| "flt_add (FVal a) (FVal b) = FVal (a + b)"
| "flt_add PosInf NegInf = NaN"
| "flt_add NegInf PosInf = NaN"
| "flt_add PosInf _ = PosInf"
| "flt_add _ PosInf = PosInf"
| "flt_add NegInf _ = NegInf"
| "flt_add _ NegInf = NegInf"

text \<open>\<open>x / 3.0\<close>.\<close>

fun flt_div3 :: "pyfloat \<Rightarrow> pyfloat" where
  "flt_div3 (FVal a) = FVal (a / 3)"
| "flt_div3 x = x"

text \<open>The exceptions the pipeline can meet; \<open>ServiceError\<close> is whatever the client of the
  text-generation service raises.\<close>

datatype py_error =
    ServiceError | JSONDecodeError | KeyError | IndexError | TypeError
  | ValueError | AttributeError | OverflowError | ZeroDivisionError

text \<open>A value \<open>json.loads\<close> produces.\<close>

datatype jval =
    JNull | JBool bool | JInt int | JFloat pyfloat | JStr string
  | JArr "jval list" | JObj "(string \<times> jval) list"

text \<open>
  \<open>str.strip()\<close>.  A \<open>char\<close> stands for one code point below 256; the white space of
  \<open>str.isspace\<close> in that range is 9 to 13, 28 to 32, 133 and 160.
\<close>

definition py_isspace :: "char \<Rightarrow> bool" where
  "py_isspace c =
     (let n = (of_char c :: nat)
      in (9 \<le> n \<and> n \<le> 13) \<or> (28 \<le> n \<and> n \<le> 32) \<or> n = 133 \<or> n = 160)"

definition strip :: "string \<Rightarrow> string" where
  "strip s = rev (dropWhile py_isspace (rev (dropWhile py_isspace s)))"

section \<open>The question model (src/mcq\_models.py)\<close>

datatype DifficultyLevel = EASY | MEDIUM | HARD

datatype ValidationStatus = VALID | INVALID | NEEDS_REVISION

record MCQOption =
  label :: string
  opt_text :: string
  is_correct :: bool

record MCQ =
  question :: string
  options :: "MCQOption list"
  correct_answer :: string
  explanation :: string
  difficulty :: DifficultyLevel
  chunk_id :: string
  source_filename :: string
  context_snippet :: string
  metadata :: "(string \<times> jval) list"

record CritiqueResult =
  mcq_index :: nat
  clarity_score :: pyfloat
  correctness_score :: pyfloat
  grounding_score :: pyfloat
  difficulty_assessment :: DifficultyLevel
  issues :: "string list"
  suggestions :: "string list"
  overall_score :: pyfloat

text \<open>
  The constructor of \<open>CritiqueResult\<close> as every call site uses it (no
  \<open>overall_score\<close> argument), followed by \<open>__post_init__\<close>, which overwrites
  \<open>overall_score\<close> with \<open>(clarity + correctness + grounding) / 3.0\<close>.
\<close>

definition new_CritiqueResult ::
  "nat \<Rightarrow> pyfloat \<Rightarrow> pyfloat \<Rightarrow> pyfloat \<Rightarrow> DifficultyLevel \<Rightarrow> string list \<Rightarrow> string list
     \<Rightarrow> CritiqueResult" where
  "new_CritiqueResult i clarity correctness grounding d iss sug =
     \<lparr> mcq_index = i, clarity_score = clarity, correctness_score = correctness,
       grounding_score = grounding, difficulty_assessment = d, issues = iss,
       suggestions = sug,
       overall_score = flt_div3 (flt_add (flt_add clarity correctness) grounding) \<rparr>"

text \<open>
  A validation error.  The source records a message string; the constructor keeps what
  the message is built from:
  \<^item> \<open>QuestionTooShort\<close>: "Question is too short or empty";
  \<^item> \<open>WrongOptionCount n\<close>: "Must have exactly 4 options, found n";
  \<^item> \<open>WrongCorrectCount n\<close>: "Must have exactly 1 correct answer, found n";
  \<^item> \<open>ExplanationTooShort\<close>: "Explanation is too short or empty";
  \<^item> \<open>InvalidLabels S\<close>: "Invalid option labels: S";
  \<^item> \<open>MissingChunkId\<close>, \<open>MissingSourceFilename\<close>, \<open>MissingDifficulty\<close>:
    "Missing chunk\_id", "Missing source\_filename", "Missing difficulty level";
  \<^item> \<open>LowGroundingScore g\<close>: "Low grounding score: g/10";
  \<^item> \<open>PotentialHallucination\<close>: "Potential hallucination detected".
\<close>

datatype verr =
    QuestionTooShort | WrongOptionCount nat | WrongCorrectCount nat
  | ExplanationTooShort | InvalidLabels "string set"
  | MissingChunkId | MissingSourceFilename | MissingDifficulty
  | LowGroundingScore pyfloat | PotentialHallucination

record ValidationResult =
  v_mcq_index :: nat
  status :: ValidationStatus
  is_context_grounded :: bool
  is_properly_formatted :: bool
  has_required_metadata :: bool
  has_hallucination :: bool
  validation_errors :: "verr list"

definition is_valid :: "ValidationResult \<Rightarrow> bool" where
  "is_valid v =
     (status v = VALID \<and> is_context_grounded v \<and> is_properly_formatted v \<and>
      has_required_metadata v \<and> \<not> has_hallucination v)"

record MCQGenerationResult =
  query :: string
  mcqs :: "MCQ list"
  critiques :: "CritiqueResult list"
  validations :: "ValidationResult list"
  valid_mcqs :: "MCQ list"
  invalid_mcqs :: "MCQ list"

text \<open>
  The loop of \<open>MCQGenerationResult.__post_init__\<close>, from index \<open>i\<close> on: the pair is
  \<open>(self.valid_mcqs, self.invalid_mcqs)\<close>.  A validation record is always truthy, so
  \<open>validation and validation.is_valid()\<close> is false only when there is no record or
  \<open>is_valid()\<close> is false.
\<close>

fun partition_loop ::
  "nat \<Rightarrow> MCQ list \<Rightarrow> ValidationResult list \<Rightarrow> MCQ list \<times> MCQ list \<Rightarrow> MCQ list \<times> MCQ list" where
  "partition_loop i [] vs (valid, invalid) = (valid, invalid)"
| "partition_loop i (mcq # rest) vs (valid, invalid) =
     (let validation = (if i < length vs then Some (vs ! i) else None)
      in if (case validation of None \<Rightarrow> False | Some v \<Rightarrow> is_valid v)
         then partition_loop (Suc i) rest vs (valid @ [mcq], invalid)
         else partition_loop (Suc i) rest vs (valid, invalid @ [mcq]))"

definition post_init :: "MCQGenerationResult \<Rightarrow> MCQGenerationResult" where
  "post_init r =
     (let (valid, invalid) =
            partition_loop 0 (mcqs r) (validations r) (valid_mcqs r, invalid_mcqs r)
      in r\<lparr>valid_mcqs := valid, invalid_mcqs := invalid\<rparr>)"

text \<open>
  \<open>MCQGenerationResult(query=..., mcqs=..., critiques=..., validations=...)\<close>: the
  construction every call site of the repository uses.  The two derived fields start
  from their default, the empty list, and \<open>__post_init__\<close> fills them.
\<close>

definition new_MCQGenerationResult ::
  "string \<Rightarrow> MCQ list \<Rightarrow> CritiqueResult list \<Rightarrow> ValidationResult list \<Rightarrow> MCQGenerationResult" where
  "new_MCQGenerationResult q ms cs vs =
     post_init \<lparr> query = q, mcqs = ms, critiques = cs, validations = vs,
                 valid_mcqs = [], invalid_mcqs = [] \<rparr>"

section \<open>The validation stage (MCQValidationAgent, src/agents/mcq\_agents.py)\<close>

text \<open>
  \<open>_check_format(mcq, errors)\<close>: returns \<open>is_valid\<close> and the list \<open>errors\<close> as the call
  leaves it (the source appends to the caller's list).
\<close>

definition check_format :: "MCQ \<Rightarrow> verr list \<Rightarrow> bool \<times> verr list" where
  "check_format mcq errors0 =
     (let is_ok = True; errors = errors0;
          (is_ok, errors) =
            (if question mcq = [] \<or> length (strip (question mcq)) < 10
             then (False, errors @ [QuestionTooShort]) else (is_ok, errors));
          (is_ok, errors) =
            (if length (options mcq) \<noteq> 4
             then (False, errors @ [WrongOptionCount (length (options mcq))])
             else (is_ok, errors));
          correct_options = filter is_correct (options mcq);
          (is_ok, errors) =
            (if length correct_options \<noteq> 1
             then (False, errors @ [WrongCorrectCount (length correct_options)])
             else (is_ok, errors));
          (is_ok, errors) =
            (if explanation mcq = [] \<or> length (strip (explanation mcq)) < 10
             then (False, errors @ [ExplanationTooShort]) else (is_ok, errors));
          expected_labels = {''A'', ''B'', ''C'', ''D''};
          actual_labels = set (map label (options mcq));
          (is_ok, errors) =
            (if actual_labels \<noteq> expected_labels
             then (False, errors @ [InvalidLabels actual_labels]) else (is_ok, errors))
      in (is_ok, errors))"

text \<open>A member of the enum \<open>DifficultyLevel\<close> is truthy, whichever it is.\<close>

definition difficulty_truthy :: "DifficultyLevel \<Rightarrow> bool" where
  "difficulty_truthy d = True"

definition check_metadata :: "MCQ \<Rightarrow> verr list \<Rightarrow> bool \<times> verr list" where
  "check_metadata mcq errors0 =
     (let is_ok = True; errors = errors0;
          (is_ok, errors) =
            (if chunk_id mcq = [] then (False, errors @ [MissingChunkId])
             else (is_ok, errors));
          (is_ok, errors) =
            (if source_filename mcq = [] then (False, errors @ [MissingSourceFilename])
             else (is_ok, errors));
          (is_ok, errors) =
            (if \<not> difficulty_truthy (difficulty mcq)
             then (False, errors @ [MissingDifficulty]) else (is_ok, errors))
      in (is_ok, errors))"

text \<open>
  The body of the loop of \<open>validate_mcqs\<close> for the MCQ at index \<open>i\<close>; \<open>critique\<close> is
  \<open>critiques[i] if i < len(critiques) else None\<close>.  A critique record is truthy.
\<close>

definition validate_one :: "nat \<Rightarrow> MCQ \<Rightarrow> CritiqueResult option \<Rightarrow> ValidationResult" where
  "validate_one i mcq critique =
     (let errors = [];
          (properly_formatted, errors) = check_format mcq errors;
          (required_metadata, errors) = check_metadata mcq errors;
          (context_grounded, errors) =
            (case critique of
               None \<Rightarrow> (True, errors)
             | Some c \<Rightarrow>
                 if flt_lt (grounding_score c) (FVal 6)
                 then (False, errors @ [LowGroundingScore (grounding_score c)])
                 else (True, errors));
          (hallucination, errors) =
            (case critique of
               None \<Rightarrow> (False, errors)
             | Some c \<Rightarrow>
                 if flt_lt (grounding_score c) (FVal 5)
                 then (True, errors @ [PotentialHallucination])
                 else (False, errors));
          st =
            (if errors = [] then VALID
             else if (case critique of None \<Rightarrow> False
                      | Some c \<Rightarrow> flt_ge (overall_score c) (FVal 7))
             then NEEDS_REVISION
             else INVALID)
      in \<lparr> v_mcq_index = i, status = st, is_context_grounded = context_grounded,
           is_properly_formatted = properly_formatted,
           has_required_metadata = required_metadata,
           has_hallucination = hallucination, validation_errors = errors \<rparr>)"

text \<open>The loop \<open>for i, mcq in enumerate(mcqs)\<close> of \<open>validate_mcqs\<close>, from index \<open>i\<close> on.\<close>

fun validate_from :: "nat \<Rightarrow> MCQ list \<Rightarrow> CritiqueResult list \<Rightarrow> ValidationResult list" where
  "validate_from i [] cs = []"
| "validate_from i (mcq # rest) cs =
     validate_one i mcq (if i < length cs then Some (cs ! i) else None)
       # validate_from (Suc i) rest cs"

definition validate_mcqs ::
  "MCQ list \<Rightarrow> CritiqueResult list \<Rightarrow> 'c list \<Rightarrow> ValidationResult list" where
  "validate_mcqs ms cs context_chunks = validate_from 0 ms cs"

section \<open>Context fragments and parsed service responses\<close>

text \<open>
  The dict \<open>MCQRetrievalAgent.retrieve_context\<close> builds for one retrieved chunk: it
  always has the keys \<open>text\<close>, \<open>score\<close>, \<open>chunk_id\<close> and \<open>source\<close> (and \<open>metadata\<close>,
  which the stages never read), so no \<open>.get\<close> default is ever taken on it and the dict is
  truthy.  \<open>c_chunk_id\<close> is the id as \<open>str()\<close> renders it, which is how both stages read it.
\<close>

record chunk =
  c_text :: string
  c_score :: pyfloat
  c_chunk_id :: string
  c_source :: string

text \<open>
  One object of the array the generation prompt asks for, as \<open>json.loads\<close> returns it;
  \<open>None\<close> is an absent key.  The values the source stores in an MCQ without converting
  them (question, explanation, correct answer, each option's label and text) have the
  type the dataclass declares for them; the two values the source inspects (difficulty,
  chunk\_index) are arbitrary JSON values.
\<close>

record option_data =
  od_label :: "string option"
  od_text :: "string option"

record mcq_data =
  md_question :: "string option"
  md_options :: "option_data list option"
  md_correct_answer :: "string option"
  md_explanation :: "string option"
  md_difficulty :: "jval option"
  md_chunk_index :: "jval option"

text \<open>The object the critique prompt asks for, read the same way.\<close>

record critique_data =
  cd_clarity_score :: "jval option"
  cd_correctness_score :: "jval option"
  cd_grounding_score :: "jval option"
  cd_difficulty_assessment :: "jval option"
  cd_issues :: "string list option"
  cd_suggestions :: "string list option"

text \<open>Sequencing of steps that may raise: the first exception ends the block.\<close>

fun bind_err :: "py_error + 'a \<Rightarrow> ('a \<Rightarrow> py_error + 'b) \<Rightarrow> py_error + 'b" where
  "bind_err (Inl e) f = Inl e"
| "bind_err (Inr x) f = f x"

text \<open>\<open>d[key]\<close> on a dict: \<open>KeyError\<close> when the key is absent.\<close>

fun dict_item :: "'a option \<Rightarrow> py_error + 'a" where
  "dict_item None = Inl KeyError"
| "dict_item (Some v) = Inr v"

text \<open>\<open>d.get(key, default)\<close>.\<close>

fun dict_get :: "'a option \<Rightarrow> 'a \<Rightarrow> 'a" where
  "dict_get None default_value = default_value"
| "dict_get (Some v) default_value = v"

text \<open>\<open>xs[k]\<close> on a list: a negative \<open>k\<close> counts from the end; \<open>IndexError\<close> outside
  \<open>-len(xs) .. len(xs) - 1\<close>.\<close>

definition list_getitem :: "'a list \<Rightarrow> int \<Rightarrow> py_error + 'a" where
  "list_getitem xs k =
     (if 0 \<le> k \<and> k < int (length xs) then Inr (xs ! nat k)
      else if k < 0 \<and> - int (length xs) \<le> k then Inr (xs ! nat (int (length xs) + k))
      else Inl IndexError)"

text \<open>\<open>DifficultyLevel(v)\<close>: the member whose value is \<open>v\<close>, \<open>ValueError\<close> when there is none.\<close>

definition DifficultyLevel_of :: "jval \<Rightarrow> py_error + DifficultyLevel" where
  "DifficultyLevel_of v =
     (if v = JStr ''easy'' then Inr EASY
      else if v = JStr ''medium'' then Inr MEDIUM
      else if v = JStr ''hard'' then Inr HARD
      else Inl ValueError)"

text \<open>
  \<open>float(v)\<close>.  An \<open>int\<close> too large for a float raises \<open>OverflowError\<close>; a string is
  parsed by Python's \<open>float\<close>, taken here as the parameter \<open>str_to_float\<close> (\<open>None\<close>
  where \<open>float\<close> raises \<open>ValueError\<close>); \<open>None\<close>, a list and a dict raise \<open>TypeError\<close>.
\<close>

definition py_float :: "(string \<Rightarrow> pyfloat option) \<Rightarrow> jval \<Rightarrow> py_error + pyfloat" where
  "py_float str_to_float v =
     (case v of
        JInt n \<Rightarrow>
          if \<bar>n\<bar> < 2 ^ 1024 - 2 ^ 970 then Inr (FVal (of_int n)) else Inl OverflowError
      | JFloat f \<Rightarrow> Inr f
      | JBool b \<Rightarrow> Inr (FVal (if b then 1 else 0))
      | JStr s \<Rightarrow> (case str_to_float s of None \<Rightarrow> Inl ValueError | Some f \<Rightarrow> Inr f)
      | _ \<Rightarrow> Inl TypeError)"

section \<open>The generation stage (MCQGenerationAgent)\<close>

text \<open>
  \<open>context_chunks[chunk_idx] if chunk_idx < len(context_chunks) else context_chunks[0]\<close>.
  The comparison accepts an \<open>int\<close>, a \<open>bool\<close> (an \<open>int\<close> in Python) and a \<open>float\<close>, and raises
  \<open>TypeError\<close> on anything else; a list index must be an \<open>int\<close>, so a float below the
  length raises \<open>TypeError\<close> too.
\<close>

definition select_source_chunk :: "chunk list \<Rightarrow> jval \<Rightarrow> py_error + chunk" where
  "select_source_chunk context_chunks chunk_idx =
     (case chunk_idx of
        JInt k \<Rightarrow>
          if k < int (length context_chunks) then list_getitem context_chunks k
          else list_getitem context_chunks 0
      | JBool b \<Rightarrow>
          if (if b then 1 else 0) < int (length context_chunks)
          then list_getitem context_chunks (if b then 1 else 0)
          else list_getitem context_chunks 0
      | JFloat f \<Rightarrow>
          if flt_lt f (FVal (of_nat (length context_chunks))) then Inl TypeError
          else list_getitem context_chunks 0
      | _ \<Rightarrow> Inl TypeError)"

text \<open>The list comprehension that builds the options; \<open>correct\<close> is the entry
  \<open>correct_answer\<close> of the item, read once per option.\<close>

fun build_options :: "string option \<Rightarrow> option_data list \<Rightarrow> py_error + MCQOption list" where
  "build_options correct [] = Inr []"
| "build_options correct (opt # rest) =
     (case dict_item (od_label opt) of Inl e \<Rightarrow> Inl e | Inr l \<Rightarrow>
       (case dict_item (od_text opt) of Inl e \<Rightarrow> Inl e | Inr t \<Rightarrow>
         (case dict_item correct of Inl e \<Rightarrow> Inl e | Inr a \<Rightarrow>
           (case build_options correct rest of Inl e \<Rightarrow> Inl e | Inr os \<Rightarrow>
              Inr (\<lparr> label = l, opt_text = t, is_correct = (l = a) \<rparr> # os)))))"

text \<open>The body of the conversion loop for the item at index \<open>i\<close>.\<close>

definition build_mcq :: "chunk list \<Rightarrow> nat \<Rightarrow> mcq_data \<Rightarrow> py_error + MCQ" where
  "build_mcq context_chunks i d =
     bind_err (select_source_chunk context_chunks (dict_get (md_chunk_index d) (JInt 0)))
       (\<lambda>source_chunk.
     bind_err (dict_item (md_options d)) (\<lambda>raw_options.
     bind_err (build_options (md_correct_answer d) raw_options) (\<lambda>opts.
     bind_err (dict_item (md_question d)) (\<lambda>q.
     bind_err (dict_item (md_correct_answer d)) (\<lambda>answer.
     bind_err (dict_item (md_explanation d)) (\<lambda>expl.
     bind_err (DifficultyLevel_of (dict_get (md_difficulty d) (JStr ''medium''))) (\<lambda>level.
       Inr \<lparr> question = q, options = opts, correct_answer = answer, explanation = expl,
             difficulty = level, chunk_id = c_chunk_id source_chunk,
             source_filename = c_source source_chunk,
             context_snippet = take 200 (c_text source_chunk) @ ''...'',
             metadata = [(''generation_order'', JInt (int i))] \<rparr>)))))))"

text \<open>The loop \<open>for i, mcq_data in enumerate(mcqs_data)\<close>, from index \<open>i\<close> on.\<close>

fun convert_items :: "chunk list \<Rightarrow> nat \<Rightarrow> mcq_data list \<Rightarrow> py_error + MCQ list" where
  "convert_items context_chunks i [] = Inr []"
| "convert_items context_chunks i (d # rest) =
     (case build_mcq context_chunks i d of Inl e \<Rightarrow> Inl e | Inr mcq \<Rightarrow>
       (case convert_items context_chunks (Suc i) rest of Inl e \<Rightarrow> Inl e | Inr ms \<Rightarrow>
          Inr (mcq # ms)))"

text \<open>
  The \<open>try\<close> block of \<open>generate_mcqs\<close>.  \<open>response\<close> is what the block has after
  \<open>json.loads\<close>: the exception raised so far (by the service call, by the extraction of
  the text, or \<open>JSONDecodeError\<close>), or the parsed array.  A parsed value that is not an
  array of objects raises in the loop (or yields no item) and is an \<open>Inl\<close> (or the empty
  array) here.
\<close>

definition generate_try :: "py_error + mcq_data list \<Rightarrow> chunk list \<Rightarrow> py_error + MCQ list" where
  "generate_try response context_chunks = bind_err response (convert_items context_chunks 0)"

text \<open>
  \<open>MCQGenerationAgent.generate_mcqs\<close>.  \<open>llm\<close> is the text-generation service seen through
  the prompt: its outcome for the prompt built from the chunks, \<open>num_mcqs\<close> and
  \<open>difficulty\<close>.  Building the prompt reads \<open>chunk['source']\<close> and \<open>chunk['text']\<close> only,
  which every chunk has.  \<open>except Exception\<close> turns every exception of the block into
  the empty list.
\<close>

definition generate_mcqs ::
  "(chunk list \<Rightarrow> int \<Rightarrow> string option \<Rightarrow> py_error + mcq_data list)
     \<Rightarrow> chunk list \<Rightarrow> int \<Rightarrow> string option \<Rightarrow> MCQ list" where
  "generate_mcqs llm context_chunks num_mcqs difficulty_arg =
     (if context_chunks = [] then []
      else case generate_try (llm context_chunks num_mcqs difficulty_arg) context_chunks of
             Inl e \<Rightarrow> []
           | Inr ms \<Rightarrow> ms)"

section \<open>The critique stage (MCQCriticAgent)\<close>

text \<open>\<open>next((chunk for chunk in context_chunks if str(chunk.get('chunk_id')) == mcq.chunk_id),
  context_chunks[0] if context_chunks else None)\<close>.\<close>

definition find_source_chunk :: "chunk list \<Rightarrow> MCQ \<Rightarrow> chunk option" where
  "find_source_chunk context_chunks mcq =
     (case find (\<lambda>c. c_chunk_id c = chunk_id mcq) context_chunks of
        Some c \<Rightarrow> Some c
      | None \<Rightarrow> (case context_chunks of [] \<Rightarrow> None | c # _ \<Rightarrow> Some c))"

text \<open>The construction of the critique from the parsed object.\<close>

definition build_critique ::
  "(string \<Rightarrow> pyfloat option) \<Rightarrow> nat \<Rightarrow> critique_data \<Rightarrow> py_error + CritiqueResult" where
  "build_critique str_to_float i cd =
     bind_err (py_float str_to_float (dict_get (cd_clarity_score cd) (JFloat (FVal 5))))
       (\<lambda>clarity.
     bind_err (py_float str_to_float (dict_get (cd_correctness_score cd) (JFloat (FVal 5))))
       (\<lambda>correctness.
     bind_err (py_float str_to_float (dict_get (cd_grounding_score cd) (JFloat (FVal 5))))
       (\<lambda>grounding.
     bind_err (DifficultyLevel_of (dict_get (cd_difficulty_assessment cd) (JStr ''medium'')))
       (\<lambda>level.
       Inr (new_CritiqueResult i clarity correctness grounding level
              (dict_get (cd_issues cd) []) (dict_get (cd_suggestions cd) []))))))"

text \<open>
  The \<open>try\<close> block of \<open>critique_mcqs\<close> for the MCQ at index \<open>i\<close>; \<open>response\<close> is the
  outcome of the service call and of the parsing, as in the generation stage (a parsed
  value that is not an object raises \<open>AttributeError\<close> at the first \<open>.get\<close>).
\<close>

definition critique_try ::
  "(string \<Rightarrow> pyfloat option) \<Rightarrow> py_error + critique_data \<Rightarrow> nat \<Rightarrow> py_error + CritiqueResult" where
  "critique_try str_to_float response i = bind_err response (build_critique str_to_float i)"

text \<open>The critique substituted when the \<open>try\<close> block raises.\<close>

definition fallback_critique :: "nat \<Rightarrow> MCQ \<Rightarrow> CritiqueResult" where
  "fallback_critique i mcq =
     new_CritiqueResult i (FVal 7) (FVal 7) (FVal 7) (difficulty mcq)
       [''Could not complete full critique''] [''Manual review recommended'']"

text \<open>The body of the loop of \<open>critique_mcqs\<close>; \<open>llm i mcq source_chunk\<close> is the outcome of
  the \<open>i\<close>-th critique call, whose prompt is built from the MCQ and the chunk's text.\<close>

definition critique_one ::
  "(string \<Rightarrow> pyfloat option) \<Rightarrow> (nat \<Rightarrow> MCQ \<Rightarrow> chunk \<Rightarrow> py_error + critique_data)
     \<Rightarrow> chunk list \<Rightarrow> nat \<Rightarrow> MCQ \<Rightarrow> CritiqueResult" where
  "critique_one str_to_float llm context_chunks i mcq =
     (case find_source_chunk context_chunks mcq of
        None \<Rightarrow>
          new_CritiqueResult i (FVal 5) (FVal 5) (FVal 0) (difficulty mcq)
            [''Could not find source context for verification'']
            [''Verify MCQ against original source'']
      | Some source_chunk \<Rightarrow>
          (case critique_try str_to_float (llm i mcq source_chunk) i of
             Inl e \<Rightarrow> fallback_critique i mcq
           | Inr critique \<Rightarrow> critique))"

fun critique_from ::
  "(string \<Rightarrow> pyfloat option) \<Rightarrow> (nat \<Rightarrow> MCQ \<Rightarrow> chunk \<Rightarrow> py_error + critique_data)
     \<Rightarrow> chunk list \<Rightarrow> nat \<Rightarrow> MCQ list \<Rightarrow> CritiqueResult list" where
  "critique_from str_to_float llm context_chunks i [] = []"
| "critique_from str_to_float llm context_chunks i (mcq # rest) =
     critique_one str_to_float llm context_chunks i mcq
       # critique_from str_to_float llm context_chunks (Suc i) rest"

definition critique_mcqs ::
  "(string \<Rightarrow> pyfloat option) \<Rightarrow> (nat \<Rightarrow> MCQ \<Rightarrow> chunk \<Rightarrow> py_error + critique_data)
     \<Rightarrow> MCQ list \<Rightarrow> chunk list \<Rightarrow> CritiqueResult list" where
  "critique_mcqs str_to_float llm ms context_chunks =
     critique_from str_to_float llm context_chunks 0 ms"

section \<open>The orchestrator (src/agents/mcq\_orchestrator.py)\<close>

text \<open>The external collaborators of one orchestrator.\<close>

record services =
  retrieve_context :: "string \<Rightarrow> int \<Rightarrow> chunk list"
  llm_generate :: "chunk list \<Rightarrow> int \<Rightarrow> string option \<Rightarrow> py_error + mcq_data list"
  llm_critique :: "nat \<Rightarrow> MCQ \<Rightarrow> chunk \<Rightarrow> py_error + critique_data"

datatype stage = RetrievalStage | GenerationStage | CritiqueStage | ValidationStage

text \<open>
  \<open>MCQOrchestrator.generate_mcqs\<close>: the result, and the stages the run invoked, in
  order.
\<close>

definition orchestrator_generate_mcqs ::
  "(string \<Rightarrow> pyfloat option) \<Rightarrow> services \<Rightarrow> string \<Rightarrow> int \<Rightarrow> string option \<Rightarrow> int
     \<Rightarrow> MCQGenerationResult \<times> stage list" where
  "orchestrator_generate_mcqs str_to_float svc q num_mcqs difficulty_arg top_k_chunks =
     (let context_chunks = retrieve_context svc q top_k_chunks;
          invoked = [RetrievalStage]
      in if context_chunks = [] then (new_MCQGenerationResult q [] [] [], invoked)
         else
           let ms = generate_mcqs (llm_generate svc) context_chunks num_mcqs difficulty_arg;
               invoked = invoked @ [GenerationStage]
           in if ms = [] then (new_MCQGenerationResult q [] [] [], invoked)
              else
                let cs = critique_mcqs str_to_float (llm_critique svc) ms context_chunks;
                    invoked = invoked @ [CritiqueStage];
                    vs = validate_mcqs ms cs context_chunks;
                    invoked = invoked @ [ValidationStage]
                in (new_MCQGenerationResult q ms cs vs, invoked))"

text \<open>
  \<open>MCQOrchestrator.generate_mcqs_batch\<close>.  The summary prints
  \<open>total_valid / total_generated * 100\<close> as the success rate, a division of two \<open>int\<close>s
  that raises \<open>ZeroDivisionError\<close> when the divisor is 0; the function then returns
  nothing.  Otherwise the model returns the results with the rate printed (a percentage,
  before it is formatted).
\<close>

definition generate_mcqs_batch ::
  "(string \<Rightarrow> pyfloat option) \<Rightarrow> services \<Rightarrow> string list \<Rightarrow> int \<Rightarrow> string option \<Rightarrow> int
     \<Rightarrow> py_error + (MCQGenerationResult list \<times> rat)" where
  "generate_mcqs_batch str_to_float svc queries num_mcqs_per_query difficulty_arg top_k_chunks =
     (let results =
            map (\<lambda>q. fst (orchestrator_generate_mcqs str_to_float svc q num_mcqs_per_query
                             difficulty_arg top_k_chunks)) queries;
          total_valid = sum_list (map (\<lambda>r. length (valid_mcqs r)) results);
          total_generated = sum_list (map (\<lambda>r. length (mcqs r)) results)
      in if total_generated = 0 then Inl ZeroDivisionError
         else Inr (results, of_nat total_valid / of_nat total_generated * 100))"

section \<open>Concrete inputs\<close>

text \<open>A fragment, a well-formed question drawn from it, and a critique of that question
  with a chosen grounding score.\<close>

definition example_chunk :: chunk where
  "example_chunk =
     \<lparr> c_text = ''Paris is the capital of France.'', c_score = FVal (9 / 10),
       c_chunk_id = ''0'', c_source = ''geo.txt'' \<rparr>"

definition example_options :: "MCQOption list" where
  "example_options =
     [ \<lparr> label = ''A'', opt_text = ''Paris'', is_correct = True \<rparr>,
       \<lparr> label = ''B'', opt_text = ''Rome'', is_correct = False \<rparr>,
       \<lparr> label = ''C'', opt_text = ''Madrid'', is_correct = False \<rparr>,
       \<lparr> label = ''D'', opt_text = ''Berlin'', is_correct = False \<rparr> ]"

definition example_mcq :: MCQ where
  "example_mcq =
     \<lparr> question = ''What is the capital of France?'', options = example_options,
       correct_answer = ''A'', explanation = ''The context names Paris.'',
       difficulty = EASY, chunk_id = ''0'', source_filename = ''geo.txt'',
       context_snippet = ''Paris is the capital of France....'',
       metadata = [(''generation_order'', JInt 0)] \<rparr>"

definition example_critique :: "pyfloat \<Rightarrow> CritiqueResult" where
  "example_critique g = new_CritiqueResult 0 (FVal 9) (FVal 9) g MEDIUM [] []"

text \<open>The same question with a question text of four characters once trimmed.\<close>

definition short_question_mcq :: MCQ where
  "short_question_mcq = example_mcq\<lparr>question := ''  Why?  ''\<rparr>"


text \<open>The item of a generation response from which \<open>example_mcq\<close> is built.\<close>

definition example_item :: mcq_data where
  "example_item =
     \<lparr> md_question = Some ''What is the capital of France?'',
       md_options =
         Some [ \<lparr> od_label = Some ''A'', od_text = Some ''Paris'' \<rparr>,
                \<lparr> od_label = Some ''B'', od_text = Some ''Rome'' \<rparr>,
                \<lparr> od_label = Some ''C'', od_text = Some ''Madrid'' \<rparr>,
                \<lparr> od_label = Some ''D'', od_text = Some ''Berlin'' \<rparr> ],
       md_correct_answer = Some ''A'',
       md_explanation = Some ''The context names Paris.'',
       md_difficulty = Some (JStr ''easy''),
       md_chunk_index = Some (JInt 0) \<rparr>"

text \<open>Services whose retrieval finds one fragment and whose generation response is not
  JSON.\<close>

definition unparsable_services :: services where
  "unparsable_services =
     \<lparr> retrieve_context = (\<lambda>q k. [example_chunk]),
       llm_generate = (\<lambda>cs n d. Inl JSONDecodeError),
       llm_critique = (\<lambda>i m c. Inl ServiceError) \<rparr>"

text \<open>Two malformed items: one without the key \<open>question\<close>, one whose \<open>chunk_index\<close> is
  \<open>-5\<close>.\<close>

definition missing_question_item :: mcq_data where
  "missing_question_item = example_item\<lparr>md_question := None\<rparr>"

definition negative_index_item :: mcq_data where
  "negative_index_item = example_item\<lparr>md_chunk_index := Some (JInt (- 5))\<rparr>"

text \<open>The example question with \<open>correct_answer\<close> set to \<open>B\<close> while option \<open>A\<close> stays the
  one flagged correct.\<close>

definition mislabelled_mcq :: MCQ where
  "mislabelled_mcq = example_mcq\<lparr>correct_answer := ''B''\<rparr>"


definition no_grounding_critique_data :: critique_data where
  "no_grounding_critique_data =
     \<lparr> cd_clarity_score = Some (JInt 9), cd_correctness_score = Some (JFloat (FVal (17 / 2))),
       cd_grounding_score = None, cd_difficulty_assessment = Some (JStr ''hard''),
       cd_issues = Some [], cd_suggestions = Some [''Cite the sentence''] \<rparr>"

text \<open>A critique service that fails on its second call (index 1) only.\<close>

definition flaky_critic :: "nat \<Rightarrow> MCQ \<Rightarrow> chunk \<Rightarrow> py_error + critique_data" where
  "flaky_critic i m c = (if i = 1 then Inl ServiceError else Inr no_grounding_critique_data)"

text \<open>Services whose retrieval finds nothing.\<close>

definition no_context_services :: services where
  "no_context_services =
     \<lparr> retrieve_context = (\<lambda>q k. []),
       llm_generate = (\<lambda>cs n d. Inr [example_item]),
       llm_critique = flaky_critic \<rparr>"

section \<open>Facts about the model\<close>

subsection \<open>Sequencing\<close>

lemma bind_err_Inr_iff:
  "(bind_err r f = Inr y) = (\<exists>x. r = Inr x \<and> f x = Inr y)"
  by (cases r) simp_all

lemma bind_err_Inl_iff:
  "(bind_err r f = Inl e) = (r = Inl e \<or> (\<exists>x. r = Inr x \<and> f x = Inl e))"
  by (cases r) simp_all

subsection \<open>The partition of a result\<close>

lemma partition_loop_enum:
  "partition_loop i ms vs (va, iv) =
     (va @ map snd (filter (\<lambda>(j, m). j < length vs \<and> is_valid (vs ! j)) (enumerate i ms)),
      iv @ map snd (filter (\<lambda>(j, m). \<not> (j < length vs \<and> is_valid (vs ! j))) (enumerate i ms)))"
  by (induction ms arbitrary: i va iv) (auto simp: Let_def)

lemma enum_filter_nth_gen:
  "map snd (filter (\<lambda>(j, m). P j) (enumerate i ms)) =
   map (\<lambda>j. ms ! (j - i)) (filter P [i..<i + length ms])"
proof (induction ms arbitrary: i)
  case Nil
  show ?case by simp
next
  case (Cons m ms)
  have shift: "map (\<lambda>j. (m # ms) ! (j - i)) (filter P [Suc i..<Suc i + length ms]) =
               map (\<lambda>j. ms ! (j - Suc i)) (filter P [Suc i..<Suc i + length ms])"
  proof (rule map_cong)
    fix j assume "j \<in> set (filter P [Suc i..<Suc i + length ms])"
    then have "Suc i \<le> j" by auto
    then have "j - i = Suc (j - Suc i)" by arith
    then show "(m # ms) ! (j - i) = ms ! (j - Suc i)" by simp
  qed simp
  have upt: "[i..<i + length (m # ms)] = i # [Suc i..<Suc i + length ms]"
    using upt_conv_Cons [of i "Suc (i + length ms)"] by (simp del: upt_Suc)
  show ?case
    unfolding upt using Cons.IH [of "Suc i"] shift by (simp del: upt_Suc)
qed

lemma enum_filter_nth:
  "map snd (filter (\<lambda>(j, m). P j) (enumerate 0 ms)) =
   map (\<lambda>j. ms ! j) (filter P [0..<length ms])"
  using enum_filter_nth_gen [of P 0 ms] by simp

lemma new_result_fields:
  "query (new_MCQGenerationResult q ms cs vs) = q"
  "mcqs (new_MCQGenerationResult q ms cs vs) = ms"
  "critiques (new_MCQGenerationResult q ms cs vs) = cs"
  "validations (new_MCQGenerationResult q ms cs vs) = vs"
  "valid_mcqs (new_MCQGenerationResult q ms cs vs) =
     map (\<lambda>i. ms ! i) (filter (\<lambda>i. i < length vs \<and> is_valid (vs ! i)) [0..<length ms])"
  "invalid_mcqs (new_MCQGenerationResult q ms cs vs) =
     map (\<lambda>i. ms ! i) (filter (\<lambda>i. \<not> (i < length vs \<and> is_valid (vs ! i))) [0..<length ms])"
  unfolding new_MCQGenerationResult_def post_init_def
  by (simp_all add: partition_loop_enum enum_filter_nth)

lemma filter_split_length:
  "length (filter P xs) + length (filter (\<lambda>x. \<not> P x) xs) = length xs"
  by (induction xs) auto

text \<open>
  What \<open>__post_init__\<close> does to lists that are not empty when it starts: it appends to
  them.  No call site of the repository passes \<open>valid_mcqs\<close> or \<open>invalid_mcqs\<close>.
\<close>

lemma post_init_appends:
  "length (valid_mcqs (post_init r)) + length (invalid_mcqs (post_init r)) =
     length (valid_mcqs r) + length (invalid_mcqs r) + length (mcqs r)"
  unfolding post_init_def
  using filter_split_length
          [of "\<lambda>(j, m). j < length (validations r) \<and> is_valid (validations r ! j)"
              "enumerate 0 (mcqs r)"]
  by (simp add: partition_loop_enum split_def)



subsection \<open>The validation stage\<close>

lemma check_format_eq:
  "check_format mcq errs =
    ( 10 \<le> length (strip (question mcq)) \<and> length (options mcq) = 4 \<and>
      length (filter is_correct (options mcq)) = 1 \<and>
      10 \<le> length (strip (explanation mcq)) \<and>
      label ` set (options mcq) = {''A'', ''B'', ''C'', ''D''},
     errs
      @ (if 10 \<le> length (strip (question mcq)) then [] else [QuestionTooShort])
      @ (if length (options mcq) = 4 then [] else [WrongOptionCount (length (options mcq))])
      @ (if length (filter is_correct (options mcq)) = 1 then []
         else [WrongCorrectCount (length (filter is_correct (options mcq)))])
      @ (if 10 \<le> length (strip (explanation mcq)) then [] else [ExplanationTooShort])
      @ (if label ` set (options mcq) = {''A'', ''B'', ''C'', ''D''} then []
         else [InvalidLabels (label ` set (options mcq))]))"
  unfolding check_format_def Let_def
  by (auto simp: strip_def)

lemma check_metadata_eq:
  "check_metadata mcq errs =
     (chunk_id mcq \<noteq> [] \<and> source_filename mcq \<noteq> [],
      errs @ (if chunk_id mcq = [] then [MissingChunkId] else [])
           @ (if source_filename mcq = [] then [MissingSourceFilename] else []))"
  unfolding check_metadata_def Let_def difficulty_truthy_def by auto

lemma validate_one_flags:
  "is_properly_formatted (validate_one i mcq c) = fst (check_format mcq [])"
  "has_required_metadata (validate_one i mcq c) =
     fst (check_metadata mcq (snd (check_format mcq [])))"
  "is_context_grounded (validate_one i mcq c) =
     (case c of None \<Rightarrow> True | Some cr \<Rightarrow> \<not> flt_lt (grounding_score cr) (FVal 6))"
  "has_hallucination (validate_one i mcq c) =
     (case c of None \<Rightarrow> False | Some cr \<Rightarrow> flt_lt (grounding_score cr) (FVal 5))"
  "v_mcq_index (validate_one i mcq c) = i"
  unfolding validate_one_def Let_def
  by (auto split: prod.splits option.splits)

lemma validate_one_errors:
  "validation_errors (validate_one i mcq c) =
     snd (check_metadata mcq (snd (check_format mcq [])))
     @ (case c of None \<Rightarrow> []
        | Some cr \<Rightarrow>
            (if flt_lt (grounding_score cr) (FVal 6)
             then [LowGroundingScore (grounding_score cr)] else [])
            @ (if flt_lt (grounding_score cr) (FVal 5) then [PotentialHallucination] else []))"
  unfolding validate_one_def Let_def
  by (auto split: prod.splits option.splits)

lemma validate_one_status:
  "status (validate_one i mcq c) =
     (if validation_errors (validate_one i mcq c) = [] then VALID
      else if (case c of None \<Rightarrow> False | Some cr \<Rightarrow> flt_ge (overall_score cr) (FVal 7))
      then NEEDS_REVISION else INVALID)"
  unfolding validate_one_def Let_def
  by (auto split: prod.splits option.splits)

lemma validate_from_length: "length (validate_from i ms cs) = length ms"
  by (induction ms arbitrary: i) auto

lemma validate_from_nth:
  "k < length ms \<Longrightarrow> validate_from i ms cs ! k =
     validate_one (i + k) (ms ! k) (if i + k < length cs then Some (cs ! (i + k)) else None)"
proof (induction ms arbitrary: i k)
  case Nil
  then show ?case by simp
next
  case (Cons m ms)
  show ?case
  proof (cases k)
    case 0
    then show ?thesis by simp
  next
    case (Suc k')
    with Cons.prems have "k' < length ms" by simp
    from Cons.IH [OF this, of "Suc i"] Suc show ?thesis by simp
  qed
qed

lemma validate_mcqs_nth:
  "i < length ms \<Longrightarrow>
     validate_mcqs ms cs chunks ! i =
       validate_one i (ms ! i) (if i < length cs then Some (cs ! i) else None)"
  unfolding validate_mcqs_def using validate_from_nth [of i ms 0 cs] by simp

lemma validate_mcqs_length: "length (validate_mcqs ms cs chunks) = length ms"
  unfolding validate_mcqs_def by (rule validate_from_length)

lemma strip_examples:
  "strip ''What is the capital of France?'' = ''What is the capital of France?''"
  "strip ''The context names Paris.'' = ''The context names Paris.''"
  "strip ''  Why?  '' = ''Why?''"
  by (simp_all add: strip_def py_isspace_def)

lemma example_labels: "label ` set example_options = {''A'', ''B'', ''C'', ''D''}"
  by (simp add: example_options_def)

lemma example_lengths:
  "length example_options = 4" "length (filter is_correct example_options) = 1"
  by (simp_all add: example_options_def)

text \<open>
  C3.  For the MCQ at index \<open>i\<close> of the list given to the validation stage,
  \<open>is_properly_formatted\<close> is true exactly when the five conditions hold together: the
  trimmed question has at least 10 characters, there are 4 options, 1 option is flagged
  correct, the trimmed explanation has at least 10 characters, and the set of labels is
  \<open>{A, B, C, D}\<close>.  It is the value \<open>_check_format\<close> returns, and each condition that
  fails, and no other, has its error in \<open>validation_errors\<close>.
\<close>

theorem format_check_iff:
  assumes "i < length ms"
  shows "is_properly_formatted (validate_mcqs ms cs chunks ! i) =
           (10 \<le> length (strip (question (ms ! i))) \<and>
            length (options (ms ! i)) = 4 \<and>
            length (filter is_correct (options (ms ! i))) = 1 \<and>
            10 \<le> length (strip (explanation (ms ! i))) \<and>
            label ` set (options (ms ! i)) = {''A'', ''B'', ''C'', ''D''})
       \<and> fst (check_format (ms ! i) errs) = is_properly_formatted (validate_mcqs ms cs chunks ! i)
       \<and> (QuestionTooShort \<in> set (validation_errors (validate_mcqs ms cs chunks ! i)))
           = (length (strip (question (ms ! i))) < 10)
       \<and> (WrongOptionCount n \<in> set (validation_errors (validate_mcqs ms cs chunks ! i)))
           = (n = length (options (ms ! i)) \<and> n \<noteq> 4)
       \<and> (WrongCorrectCount k \<in> set (validation_errors (validate_mcqs ms cs chunks ! i)))
           = (k = length (filter is_correct (options (ms ! i))) \<and> k \<noteq> 1)
       \<and> (ExplanationTooShort \<in> set (validation_errors (validate_mcqs ms cs chunks ! i)))
           = (length (strip (explanation (ms ! i))) < 10)
       \<and> (InvalidLabels S \<in> set (validation_errors (validate_mcqs ms cs chunks ! i)))
           = (S = label ` set (options (ms ! i)) \<and> S \<noteq> {''A'', ''B'', ''C'', ''D''})"
  unfolding validate_mcqs_nth [OF assms] validate_one_flags validate_one_errors
    check_metadata_eq check_format_eq
  by (auto split: option.splits)

theorem format_check_iff_witness:
  "is_properly_formatted (validate_mcqs [example_mcq] [] [example_chunk] ! 0)
   \<and> \<not> is_properly_formatted (validate_mcqs [short_question_mcq] [] [example_chunk] ! 0)
   \<and> QuestionTooShort
        \<in> set (validation_errors (validate_mcqs [short_question_mcq] [] [example_chunk] ! 0))
   \<and> \<not> is_properly_formatted
          (validate_mcqs [example_mcq\<lparr>options := butlast example_options\<rparr>] []
             [example_chunk] ! 0)
   \<and> WrongOptionCount 3
        \<in> set (validation_errors
                 (validate_mcqs [example_mcq\<lparr>options := butlast example_options\<rparr>] []
                    [example_chunk] ! 0))"
  using format_check_iff [of 0 "[example_mcq]" "[]" "[example_chunk]" "[]" 4 1 "{}"]
    format_check_iff [of 0 "[short_question_mcq]" "[]" "[example_chunk]" "[]" 4 1 "{}"]
    format_check_iff [of 0 "[example_mcq\<lparr>options := butlast example_options\<rparr>]" "[]"
                        "[example_chunk]" "[]" 3 1 "{}"]
  by (simp add: example_mcq_def short_question_mcq_def strip_examples example_labels
        example_lengths)

text \<open>
  C4.  For the MCQ at index \<open>i\<close>: when a critique stands at the same index,
  \<open>is_context_grounded\<close> is false, and the error carrying the score is recorded, exactly
  when its \<open>grounding_score\<close> is below 6.0, and \<open>has_hallucination\<close> is true, and its
  error recorded, exactly when the score is below 5.0; when there is no critique at that
  index, \<open>is_context_grounded\<close> is true, \<open>has_hallucination\<close> is false and neither error
  is recorded.
\<close>

theorem grounding_check:
  assumes "i < length ms"
  shows "(i < length cs \<longrightarrow>
            is_context_grounded (validate_mcqs ms cs chunks ! i)
              = (\<not> flt_lt (grounding_score (cs ! i)) (FVal 6))
          \<and> (\<forall>g. (LowGroundingScore g \<in> set (validation_errors (validate_mcqs ms cs chunks ! i)))
                  = (g = grounding_score (cs ! i) \<and> flt_lt (grounding_score (cs ! i)) (FVal 6)))
          \<and> has_hallucination (validate_mcqs ms cs chunks ! i)
              = flt_lt (grounding_score (cs ! i)) (FVal 5)
          \<and> (PotentialHallucination \<in> set (validation_errors (validate_mcqs ms cs chunks ! i)))
              = flt_lt (grounding_score (cs ! i)) (FVal 5))
       \<and> (length cs \<le> i \<longrightarrow>
            is_context_grounded (validate_mcqs ms cs chunks ! i)
          \<and> \<not> has_hallucination (validate_mcqs ms cs chunks ! i)
          \<and> (\<forall>g. LowGroundingScore g \<notin> set (validation_errors (validate_mcqs ms cs chunks ! i)))
          \<and> PotentialHallucination \<notin> set (validation_errors (validate_mcqs ms cs chunks ! i)))"
  unfolding validate_mcqs_nth [OF assms] validate_one_flags validate_one_errors
    check_metadata_eq check_format_eq
  by (auto split: option.splits)

theorem grounding_check_witness:
  "\<not> is_context_grounded
        (validate_mcqs [example_mcq] [example_critique (FVal (11 / 2))] [example_chunk] ! 0)
   \<and> \<not> has_hallucination
        (validate_mcqs [example_mcq] [example_critique (FVal (11 / 2))] [example_chunk] ! 0)
   \<and> LowGroundingScore (FVal (11 / 2))
        \<in> set (validation_errors
                 (validate_mcqs [example_mcq] [example_critique (FVal (11 / 2))]
                    [example_chunk] ! 0))
   \<and> \<not> is_context_grounded
        (validate_mcqs [example_mcq] [example_critique (FVal 4)] [example_chunk] ! 0)
   \<and> has_hallucination
        (validate_mcqs [example_mcq] [example_critique (FVal 4)] [example_chunk] ! 0)
   \<and> is_context_grounded
        (validate_mcqs [example_mcq] [example_critique (FVal 6)] [example_chunk] ! 0)
   \<and> is_context_grounded (validate_mcqs [example_mcq] [] [example_chunk] ! 0)
   \<and> \<not> has_hallucination (validate_mcqs [example_mcq] [] [example_chunk] ! 0)"
  using grounding_check [of 0 "[example_mcq]" "[example_critique (FVal (11 / 2))]"
                           "[example_chunk]"]
    grounding_check [of 0 "[example_mcq]" "[example_critique (FVal 4)]" "[example_chunk]"]
    grounding_check [of 0 "[example_mcq]" "[example_critique (FVal 6)]" "[example_chunk]"]
    grounding_check [of 0 "[example_mcq]" "[]" "[example_chunk]"]
  by (simp add: example_critique_def new_CritiqueResult_def)

text \<open>
  C5.  For the MCQ at index \<open>i\<close>, the status is \<open>VALID\<close> exactly when no error was
  recorded; \<open>NEEDS_REVISION\<close> exactly when an error was recorded and a critique stands at
  the same index with \<open>overall_score >= 7.0\<close>; \<open>INVALID\<close> in every other case.  The errors
  recorded are those of the structural check, then of the metadata check, then of the
  grounding check.
\<close>

theorem status_assignment:
  assumes "i < length ms"
  shows "(status (validate_mcqs ms cs chunks ! i) = VALID)
           = (validation_errors (validate_mcqs ms cs chunks ! i) = [])
       \<and> (status (validate_mcqs ms cs chunks ! i) = NEEDS_REVISION)
           = (validation_errors (validate_mcqs ms cs chunks ! i) \<noteq> []
              \<and> i < length cs \<and> flt_ge (overall_score (cs ! i)) (FVal 7))
       \<and> (status (validate_mcqs ms cs chunks ! i) = INVALID)
           = (validation_errors (validate_mcqs ms cs chunks ! i) \<noteq> []
              \<and> \<not> (i < length cs \<and> flt_ge (overall_score (cs ! i)) (FVal 7)))
       \<and> validation_errors (validate_mcqs ms cs chunks ! i)
           = snd (check_format (ms ! i) [])
             @ snd (check_metadata (ms ! i) [])
             @ (if i < length cs \<and> flt_lt (grounding_score (cs ! i)) (FVal 6)
                then [LowGroundingScore (grounding_score (cs ! i))] else [])
             @ (if i < length cs \<and> flt_lt (grounding_score (cs ! i)) (FVal 5)
                then [PotentialHallucination] else [])"
proof -
  let ?v = "validate_mcqs ms cs chunks ! i"
  have st: "status ?v =
     (if validation_errors ?v = [] then VALID
      else if i < length cs \<and> flt_ge (overall_score (cs ! i)) (FVal 7)
      then NEEDS_REVISION else INVALID)"
    unfolding validate_mcqs_nth [OF assms] validate_one_status by simp
  have errs: "validation_errors ?v
           = snd (check_format (ms ! i) [])
             @ snd (check_metadata (ms ! i) [])
             @ (if i < length cs \<and> flt_lt (grounding_score (cs ! i)) (FVal 6)
                then [LowGroundingScore (grounding_score (cs ! i))] else [])
             @ (if i < length cs \<and> flt_lt (grounding_score (cs ! i)) (FVal 5)
                then [PotentialHallucination] else [])"
    unfolding validate_mcqs_nth [OF assms] validate_one_errors check_metadata_eq
    by simp
  have a: "(status ?v = VALID) = (validation_errors ?v = [])"
    unfolding st by simp
  have b: "(status ?v = NEEDS_REVISION)
           = (validation_errors ?v \<noteq> []
              \<and> i < length cs \<and> flt_ge (overall_score (cs ! i)) (FVal 7))"
    unfolding st by simp
  have c: "(status ?v = INVALID)
           = (validation_errors ?v \<noteq> []
              \<and> \<not> (i < length cs \<and> flt_ge (overall_score (cs ! i)) (FVal 7)))"
    unfolding st by simp
  show ?thesis by (intro conjI) (rule a, rule b, rule c, rule errs)
qed

theorem status_assignment_witness:
  "status (validate_mcqs [example_mcq] [example_critique (FVal 9)] [example_chunk] ! 0) = VALID
   \<and> status (validate_mcqs [short_question_mcq] [example_critique (FVal 9)]
               [example_chunk] ! 0) = NEEDS_REVISION
   \<and> status (validate_mcqs [short_question_mcq] [example_critique (FVal 2)]
               [example_chunk] ! 0) = INVALID
   \<and> status (validate_mcqs [short_question_mcq] [] [example_chunk] ! 0) = INVALID"
  using status_assignment [of 0 "[example_mcq]" "[example_critique (FVal 9)]" "[example_chunk]"]
    status_assignment [of 0 "[short_question_mcq]" "[example_critique (FVal 9)]"
                         "[example_chunk]"]
    status_assignment [of 0 "[short_question_mcq]" "[example_critique (FVal 2)]"
                         "[example_chunk]"]
    status_assignment [of 0 "[short_question_mcq]" "[]" "[example_chunk]"]
  by (simp add: check_format_eq check_metadata_eq example_mcq_def short_question_mcq_def
        strip_examples example_labels example_lengths example_critique_def
        new_CritiqueResult_def flt_ge_def)

subsection \<open>The generation stage\<close>

lemma convert_items_error:
  "k < length items \<Longrightarrow> build_mcq cs (i + k) (items ! k) = Inl e \<Longrightarrow>
     \<exists>e'. convert_items cs i items = Inl e'"
proof (induction items arbitrary: i k)
  case Nil
  then show ?case by simp
next
  case (Cons d rest)
  show ?case
  proof (cases k)
    case 0
    with Cons.prems show ?thesis by simp
  next
    case (Suc k')
    with Cons.prems have "k' < length rest" "build_mcq cs (Suc i + k') (rest ! k') = Inl e"
      by simp_all
    from Cons.IH [OF this] obtain e' where "convert_items cs (Suc i) rest = Inl e'" by blast
    then show ?thesis by (simp split: sum.splits)
  qed
qed

lemma generate_mcqs_raised:
  "generate_try (llm cs n d) cs = Inl e \<Longrightarrow> generate_mcqs llm cs n d = []"
  by (simp add: generate_mcqs_def)

lemma generate_try_item_error:
  "response = Inr items \<Longrightarrow> k < length items \<Longrightarrow> build_mcq cs k (items ! k) = Inl e \<Longrightarrow>
     \<exists>e'. generate_try response cs = Inl e'"
  using convert_items_error [of k items cs 0 e] by (simp add: generate_try_def)

lemma orchestrator_empty_generation:
  assumes "generate_mcqs (llm_generate svc) (retrieve_context svc q top_k) n d = []"
  shows "fst (orchestrator_generate_mcqs stf svc q n d top_k) = new_MCQGenerationResult q [] [] []"
    and "snd (orchestrator_generate_mcqs stf svc q n d top_k) =
           (if retrieve_context svc q top_k = [] then [RetrievalStage]
            else [RetrievalStage, GenerationStage])"
  using assms by (simp_all add: orchestrator_generate_mcqs_def Let_def)

text \<open>
  C6.  The generation stage returns the empty list whenever its \<open>try\<close> block raises:
  when the service call or the parsing raised, and when the conversion of any one item
  of the parsed array raises.  When the generation stage returns the empty list, the
  orchestrator returns a result whose \<open>mcqs\<close>, \<open>critiques\<close>, \<open>validations\<close> and derived
  lists are empty, and it invokes neither the critique nor the validation stage.
\<close>

theorem generation_fails_soft:
  "(generate_try (llm cs n d) cs = Inl e \<longrightarrow> generate_mcqs llm cs n d = [])
   \<and> (llm cs n d = Inl e \<longrightarrow> generate_mcqs llm cs n d = [])
   \<and> (llm cs n d = Inr items \<and> k < length items \<and> build_mcq cs k (items ! k) = Inl e
        \<longrightarrow> generate_mcqs llm cs n d = [])
   \<and> (generate_mcqs (llm_generate svc) (retrieve_context svc q top_k) n d = [] \<longrightarrow>
        mcqs (fst (orchestrator_generate_mcqs stf svc q n d top_k)) = []
      \<and> critiques (fst (orchestrator_generate_mcqs stf svc q n d top_k)) = []
      \<and> validations (fst (orchestrator_generate_mcqs stf svc q n d top_k)) = []
      \<and> valid_mcqs (fst (orchestrator_generate_mcqs stf svc q n d top_k)) = []
      \<and> invalid_mcqs (fst (orchestrator_generate_mcqs stf svc q n d top_k)) = []
      \<and> CritiqueStage \<notin> set (snd (orchestrator_generate_mcqs stf svc q n d top_k))
      \<and> ValidationStage \<notin> set (snd (orchestrator_generate_mcqs stf svc q n d top_k)))"
proof (intro conjI impI)
  assume "generate_try (llm cs n d) cs = Inl e"
  then show "generate_mcqs llm cs n d = []" by (rule generate_mcqs_raised)
next
  assume "llm cs n d = Inl e"
  then have "generate_try (llm cs n d) cs = Inl e" by (simp add: generate_try_def)
  then show "generate_mcqs llm cs n d = []" by (rule generate_mcqs_raised)
next
  assume "llm cs n d = Inr items \<and> k < length items \<and> build_mcq cs k (items ! k) = Inl e"
  then obtain e' where "generate_try (llm cs n d) cs = Inl e'"
    using generate_try_item_error [of "llm cs n d" items k cs e] by blast
  then show "generate_mcqs llm cs n d = []" by (rule generate_mcqs_raised)
next
  assume g: "generate_mcqs (llm_generate svc) (retrieve_context svc q top_k) n d = []"
  note r = orchestrator_empty_generation [OF g, of stf]
  show "mcqs (fst (orchestrator_generate_mcqs stf svc q n d top_k)) = []"
    unfolding r by (simp add: new_result_fields)
  show "critiques (fst (orchestrator_generate_mcqs stf svc q n d top_k)) = []"
    unfolding r by (simp add: new_result_fields)
  show "validations (fst (orchestrator_generate_mcqs stf svc q n d top_k)) = []"
    unfolding r by (simp add: new_result_fields)
  show "valid_mcqs (fst (orchestrator_generate_mcqs stf svc q n d top_k)) = []"
    unfolding r by (simp add: new_result_fields)
  show "invalid_mcqs (fst (orchestrator_generate_mcqs stf svc q n d top_k)) = []"
    unfolding r by (simp add: new_result_fields)
  show "CritiqueStage \<notin> set (snd (orchestrator_generate_mcqs stf svc q n d top_k))"
    unfolding r by simp
  show "ValidationStage \<notin> set (snd (orchestrator_generate_mcqs stf svc q n d top_k))"
    unfolding r by simp
qed

lemma build_example_item: "build_mcq [example_chunk] 0 example_item = Inr example_mcq"
  by (simp add: build_mcq_def example_item_def example_chunk_def example_mcq_def
      select_source_chunk_def list_getitem_def DifficultyLevel_of_def example_options_def)

lemma build_missing_question: "build_mcq [example_chunk] i missing_question_item = Inl KeyError"
  by (simp add: build_mcq_def example_item_def missing_question_item_def
      select_source_chunk_def list_getitem_def)

theorem generation_fails_soft_witness:
  "generate_mcqs (\<lambda>cs n d. Inl JSONDecodeError) [example_chunk] 3 None = []
   \<and> generate_mcqs (\<lambda>cs n d. Inr [example_item, missing_question_item]) [example_chunk] 3 None = []
   \<and> mcqs (fst (orchestrator_generate_mcqs (\<lambda>s. None) unparsable_services ''capitals'' 3 None 5)) = []
   \<and> critiques (fst (orchestrator_generate_mcqs (\<lambda>s. None) unparsable_services ''capitals'' 3 None 5)) = []
   \<and> validations (fst (orchestrator_generate_mcqs (\<lambda>s. None) unparsable_services ''capitals'' 3 None 5)) = []
   \<and> snd (orchestrator_generate_mcqs (\<lambda>s. None) unparsable_services ''capitals'' 3 None 5)
       = [RetrievalStage, GenerationStage]"
proof -
  have a: "generate_mcqs (\<lambda>cs n d. Inl JSONDecodeError) [example_chunk] 3 None = []"
    using generation_fails_soft
            [of "\<lambda>cs n d. Inl JSONDecodeError" "[example_chunk]" 3 None JSONDecodeError]
    by simp
  have b: "generate_mcqs (\<lambda>cs n d. Inr [example_item, missing_question_item])
             [example_chunk] 3 None = []"
    using generation_fails_soft
            [of "\<lambda>cs n d. Inr [example_item, missing_question_item]" "[example_chunk]" 3 None
                KeyError "[example_item, missing_question_item]" 1]
    by (simp add: build_missing_question)
  have g: "generate_mcqs (llm_generate unparsable_services)
             (retrieve_context unparsable_services ''capitals'' 5) 3 None = []"
    by (simp add: unparsable_services_def generate_mcqs_def generate_try_def)
  have c: "mcqs (fst (orchestrator_generate_mcqs (\<lambda>s. None) unparsable_services ''capitals'' 3 None 5)) = []
   \<and> critiques (fst (orchestrator_generate_mcqs (\<lambda>s. None) unparsable_services ''capitals'' 3 None 5)) = []
   \<and> validations (fst (orchestrator_generate_mcqs (\<lambda>s. None) unparsable_services ''capitals'' 3 None 5)) = []"
    using generation_fails_soft
            [of "\<lambda>cs n d. Inl JSONDecodeError" "[example_chunk]" 3 None JSONDecodeError _ _
                unparsable_services "''capitals''" 5 "\<lambda>s. None"] g
    by simp
  have d: "snd (orchestrator_generate_mcqs (\<lambda>s. None) unparsable_services ''capitals'' 3 None 5)
       = [RetrievalStage, GenerationStage]"
    using orchestrator_empty_generation(2) [OF g, of "\<lambda>s. None"]
    by (simp add: unparsable_services_def)
  show ?thesis using a b c d by simp
qed

subsection \<open>The critique stage\<close>

lemma critique_from_length: "length (critique_from stf llm cs i ms) = length ms"
  by (induction ms arbitrary: i) auto

lemma critique_from_nth:
  "k < length ms \<Longrightarrow>
     critique_from stf llm cs i ms ! k = critique_one stf llm cs (i + k) (ms ! k)"
proof (induction ms arbitrary: i k)
  case Nil
  then show ?case by simp
next
  case (Cons m ms)
  show ?case
  proof (cases k)
    case 0
    then show ?thesis by simp
  next
    case (Suc k')
    with Cons.prems have "k' < length ms" by simp
    from Cons.IH [OF this, of "Suc i"] Suc show ?thesis by simp
  qed
qed

lemma critique_mcqs_nth:
  "i < length ms \<Longrightarrow> critique_mcqs stf llm ms cs ! i = critique_one stf llm cs i (ms ! i)"
  unfolding critique_mcqs_def using critique_from_nth [of i ms stf llm cs 0] by simp

lemma critique_mcqs_length: "length (critique_mcqs stf llm ms cs) = length ms"
  unfolding critique_mcqs_def by (rule critique_from_length)

lemma build_critique_index: "build_critique stf i cd = Inr c \<Longrightarrow> mcq_index c = i"
  unfolding build_critique_def
  by (auto simp: new_CritiqueResult_def bind_err_Inr_iff)

lemma critique_one_index: "mcq_index (critique_one stf llm cs i m) = i"
  unfolding critique_one_def critique_try_def fallback_critique_def
  by (auto simp: new_CritiqueResult_def bind_err_Inr_iff build_critique_index
           split: option.splits sum.splits)

lemma fallback_critique_fields:
  "fallback_critique i m =
     \<lparr> mcq_index = i, clarity_score = FVal 7, correctness_score = FVal 7,
       grounding_score = FVal 7, difficulty_assessment = difficulty m,
       issues = [''Could not complete full critique''],
       suggestions = [''Manual review recommended''], overall_score = FVal 7 \<rparr>"
  by (simp add: fallback_critique_def new_CritiqueResult_def)

text \<open>
  C7.  The critique stage returns one critique per MCQ, in order, each carrying its own
  index and computed from its own MCQ alone.  When a source chunk is found for the MCQ at
  index \<open>i\<close> and the \<open>try\<close> block raises for it (the service call or the parsing
  raised, or the construction of the critique did), the critique at index \<open>i\<close> is the
  fallback: 7.0 on the three axes, hence \<open>overall_score\<close> 7.0, the difficulty the MCQ
  declares, and the issue "Could not complete full critique".
\<close>

theorem critique_isolates_failures:
  "length (critique_mcqs stf llm ms cs) = length ms
   \<and> (\<forall>j. j < length ms \<longrightarrow>
          critique_mcqs stf llm ms cs ! j = critique_one stf llm cs j (ms ! j)
        \<and> mcq_index (critique_mcqs stf llm ms cs ! j) = j)
   \<and> (i < length ms \<and> find_source_chunk cs (ms ! i) = Some sc
        \<and> critique_try stf (llm i (ms ! i) sc) i = Inl e \<longrightarrow>
          critique_mcqs stf llm ms cs ! i =
            \<lparr> mcq_index = i, clarity_score = FVal 7, correctness_score = FVal 7,
              grounding_score = FVal 7, difficulty_assessment = difficulty (ms ! i),
              issues = [''Could not complete full critique''],
              suggestions = [''Manual review recommended''], overall_score = FVal 7 \<rparr>)
   \<and> (i < length ms \<and> find_source_chunk cs (ms ! i) = Some sc
        \<and> llm i (ms ! i) sc = Inl e \<longrightarrow>
          critique_mcqs stf llm ms cs ! i =
            \<lparr> mcq_index = i, clarity_score = FVal 7, correctness_score = FVal 7,
              grounding_score = FVal 7, difficulty_assessment = difficulty (ms ! i),
              issues = [''Could not complete full critique''],
              suggestions = [''Manual review recommended''], overall_score = FVal 7 \<rparr>)"
  by (simp add: critique_mcqs_length critique_mcqs_nth critique_one_index)
     (simp add: critique_one_def critique_try_def fallback_critique_fields)

lemma find_source_chunk_example: "find_source_chunk [example_chunk] m = Some example_chunk"
  by (simp add: find_source_chunk_def split: option.splits)

lemma build_no_grounding:
  "build_critique stf i no_grounding_critique_data =
     Inr (new_CritiqueResult i (FVal 9) (FVal (17 / 2)) (FVal 5) HARD [] [''Cite the sentence''])"
  by (simp add: build_critique_def no_grounding_critique_data_def py_float_def
        DifficultyLevel_of_def)

theorem critique_isolates_failures_witness:
  "length (critique_mcqs (\<lambda>s. None) flaky_critic
             [example_mcq, short_question_mcq, example_mcq] [example_chunk]) = 3
   \<and> critique_mcqs (\<lambda>s. None) flaky_critic
         [example_mcq, short_question_mcq, example_mcq] [example_chunk] ! 1 =
       \<lparr> mcq_index = 1, clarity_score = FVal 7, correctness_score = FVal 7,
         grounding_score = FVal 7, difficulty_assessment = EASY,
         issues = [''Could not complete full critique''],
         suggestions = [''Manual review recommended''], overall_score = FVal 7 \<rparr>
   \<and> critique_mcqs (\<lambda>s. None) flaky_critic
         [example_mcq, short_question_mcq, example_mcq] [example_chunk] ! 2 =
       new_CritiqueResult 2 (FVal 9) (FVal (17 / 2)) (FVal 5) HARD [] [''Cite the sentence'']"
  using critique_isolates_failures
          [of "\<lambda>s. None" flaky_critic "[example_mcq, short_question_mcq, example_mcq]"
              "[example_chunk]" 1 example_chunk ServiceError]
  by (simp add: find_source_chunk_example critique_try_def flaky_critic_def critique_one_def
        build_no_grounding short_question_mcq_def example_mcq_def)






subsection \<open>The correct answer and its flag\<close>

lemma build_options_flags:
  "build_options correct raw = Inr os \<Longrightarrow> opt \<in> set os \<Longrightarrow>
     correct = Some a \<Longrightarrow> is_correct opt = (label opt = a)"
proof (induction raw arbitrary: os)
  case Nil
  then show ?case by simp
next
  case (Cons r raw)
  from Cons.prems(1) obtain l t os' where
      os: "os = \<lparr> label = l, opt_text = t, is_correct = (l = a) \<rparr> # os'"
      and rest: "build_options correct raw = Inr os'"
    using Cons.prems(3) by (auto split: sum.splits)
  show ?case
  proof (cases "opt \<in> set os'")
    case True
    from Cons.IH [OF rest True Cons.prems(3)] show ?thesis .
  next
    case False
    with Cons.prems(2) os have "opt = \<lparr> label = l, opt_text = t, is_correct = (l = a) \<rparr>"
      by simp
    then show ?thesis by simp
  qed
qed

lemma build_mcq_flags:
  assumes "build_mcq cs i d = Inr m" and "opt \<in> set (options m)"
  shows "is_correct opt = (label opt = correct_answer m)"
proof -
  from assms(1) obtain raw os a where
      o: "build_options (md_correct_answer d) raw = Inr os"
      and a: "md_correct_answer d = Some a"
      and m: "options m = os" "correct_answer m = a"
    unfolding build_mcq_def
    by (cases "md_correct_answer d") (auto simp: bind_err_Inr_iff)
  from build_options_flags [OF o _ a] assms(2) m show ?thesis by simp
qed

lemma convert_items_built:
  "convert_items cs i items = Inr ms \<Longrightarrow> m \<in> set ms \<Longrightarrow>
     \<exists>k d. build_mcq cs k d = Inr m"
proof (induction items arbitrary: i ms)
  case Nil
  then show ?case by simp
next
  case (Cons d rest)
  from Cons.prems(1) obtain m0 ms' where
      b: "build_mcq cs i d = Inr m0" and r: "convert_items cs (Suc i) rest = Inr ms'"
      and ms: "ms = m0 # ms'"
    by (auto split: sum.splits)
  show ?case
  proof (cases "m = m0")
    case True
    with b show ?thesis by blast
  next
    case False
    with Cons.prems(2) ms have "m \<in> set ms'" by simp
    from Cons.IH [OF r this] show ?thesis .
  qed
qed

lemma generate_mcqs_built:
  assumes "m \<in> set (generate_mcqs llm cs n d)"
  shows "\<exists>k item. build_mcq cs k item = Inr m"
proof (cases "generate_try (llm cs n d) cs")
  case (Inl e)
  with assms show ?thesis by (simp add: generate_mcqs_def split: if_splits)
next
  case (Inr ms)
  with assms have mem: "m \<in> set ms" by (simp add: generate_mcqs_def split: if_splits)
  from Inr obtain items where "convert_items cs 0 items = Inr ms"
    unfolding generate_try_def by (auto simp: bind_err_Inr_iff)
  from convert_items_built [OF this mem] show ?thesis .
qed

lemma validate_one_ignores_answer:
  "validate_one i (m\<lparr>correct_answer := a\<rparr>) c = validate_one i m c"
  unfolding validate_one_def check_format_def check_metadata_def by simp

lemma validate_from_ignores_answer:
  "validate_from i (map (\<lambda>m. m\<lparr>correct_answer := f m\<rparr>) ms) cs = validate_from i ms cs"
  by (induction ms arbitrary: i) (simp_all add: validate_one_ignores_answer)

text \<open>
  The claim C9 as stated fails: the validation stage passes a question whose
  \<open>correct_answer\<close> is \<open>B\<close> while the one option flagged correct is \<open>A\<close>.
\<close>

theorem mislabelled_mcq_passes_validation:
  "correct_answer mislabelled_mcq = ''B''
   \<and> map label (filter is_correct (options mislabelled_mcq)) = [''A'']
   \<and> status (validate_mcqs [mislabelled_mcq] [example_critique (FVal 9)] [example_chunk] ! 0)
       = VALID
   \<and> is_valid (validate_mcqs [mislabelled_mcq] [example_critique (FVal 9)] [example_chunk] ! 0)"
  by (simp add: mislabelled_mcq_def validate_mcqs_nth is_valid_def validate_one_status
        validate_one_errors validate_one_flags check_format_eq check_metadata_eq
        example_mcq_def strip_examples example_labels example_lengths
        example_critique_def new_CritiqueResult_def)
     (simp add: example_options_def)

text \<open>
  C9, amended.  In every MCQ the generation stage returns, an option is flagged correct
  exactly when its label equals \<open>correct_answer\<close>: the flag is derived at creation.  The
  validation stage never compares \<open>correct_answer\<close> with the flagged option: its verdicts
  are the same whatever \<open>correct_answer\<close> is.
\<close>

theorem correct_flag_derived_not_checked:
  "(\<forall>m \<in> set (generate_mcqs llm cs n d). \<forall>opt \<in> set (options m).
       is_correct opt = (label opt = correct_answer m))
   \<and> validate_mcqs (map (\<lambda>m. m\<lparr>correct_answer := f m\<rparr>) ms) crs chunks
       = validate_mcqs ms crs chunks"
proof
  show "\<forall>m \<in> set (generate_mcqs llm cs n d). \<forall>opt \<in> set (options m).
       is_correct opt = (label opt = correct_answer m)"
    using generate_mcqs_built build_mcq_flags by blast
  show "validate_mcqs (map (\<lambda>m. m\<lparr>correct_answer := f m\<rparr>) ms) crs chunks
       = validate_mcqs ms crs chunks"
    unfolding validate_mcqs_def by (rule validate_from_ignores_answer)
qed

lemma generate_example:
  "generate_mcqs (\<lambda>cs n d. Inr [example_item]) [example_chunk] 1 None = [example_mcq]"
  by (simp add: generate_mcqs_def generate_try_def build_example_item)

theorem correct_flag_derived_not_checked_witness:
  "generate_mcqs (\<lambda>cs n d. Inr [example_item]) [example_chunk] 1 None = [example_mcq]
   \<and> list_all (\<lambda>opt. is_correct opt = (label opt = ''A'')) (options example_mcq)
   \<and> validate_mcqs [mislabelled_mcq] [example_critique (FVal 9)] [example_chunk]
       = validate_mcqs [example_mcq] [example_critique (FVal 9)] [example_chunk]"
proof -
  have a: "list_all (\<lambda>opt. is_correct opt = (label opt = ''A'')) (options example_mcq)"
    using correct_flag_derived_not_checked
            [of "\<lambda>cs n d. Inr [example_item]" "[example_chunk]" 1 None
                "\<lambda>m. ''B''" "[]" "[]" "[] :: chunk list"]
    by (simp add: generate_example list_all_iff) (simp add: example_mcq_def)
  have b: "validate_mcqs [mislabelled_mcq] [example_critique (FVal 9)] [example_chunk]
       = validate_mcqs [example_mcq] [example_critique (FVal 9)] [example_chunk]"
    using correct_flag_derived_not_checked
            [of "\<lambda>cs n d. Inr [example_item]" "[example_chunk]" 1 None
                "\<lambda>m. ''B''" "[example_mcq]" "[example_critique (FVal 9)]" "[example_chunk]"]
    by (simp add: mislabelled_mcq_def)
  show ?thesis using a b generate_example by simp
qed

subsection \<open>The fragment reference of an item\<close>

lemma select_source_chunk_fallback:
  "cs \<noteq> [] \<Longrightarrow> int (length cs) \<le> k \<Longrightarrow> select_source_chunk cs (JInt k) = Inr (cs ! 0)"
  "cs \<noteq> [] \<Longrightarrow> select_source_chunk cs (dict_get None (JInt 0)) = Inr (cs ! 0)"
  by (simp_all add: select_source_chunk_def list_getitem_def)

lemma select_source_chunk_negative:
  "k < - int (length cs) \<Longrightarrow> select_source_chunk cs (JInt k) = Inl IndexError"
  by (simp add: select_source_chunk_def list_getitem_def)

text \<open>
  C8.  The code at the failing input: with one fragment and \<open>chunk_index = -5\<close> the
  lookup raises \<open>IndexError\<close>, the item is not built and the whole call returns the empty
  list, also when another item of the response is well formed.  An index past the end
  (7) and an absent index do give the MCQ of the first fragment.
\<close>

theorem negative_chunk_index_discards_all:
  "select_source_chunk [example_chunk] (JInt (- 5)) = Inl IndexError
   \<and> build_mcq [example_chunk] 0 negative_index_item = Inl IndexError
   \<and> generate_mcqs (\<lambda>cs n d. Inr [negative_index_item]) [example_chunk] 1 None = []
   \<and> generate_mcqs (\<lambda>cs n d. Inr [example_item, negative_index_item]) [example_chunk] 2 None = []
   \<and> generate_mcqs (\<lambda>cs n d. Inr [example_item\<lparr>md_chunk_index := Some (JInt 7)\<rparr>])
        [example_chunk] 1 None = [example_mcq]
   \<and> generate_mcqs (\<lambda>cs n d. Inr [example_item\<lparr>md_chunk_index := None\<rparr>])
        [example_chunk] 1 None = [example_mcq]"
  by (simp add: generate_mcqs_def generate_try_def build_mcq_def negative_index_item_def
        example_item_def select_source_chunk_def list_getitem_def DifficultyLevel_of_def
        example_mcq_def example_chunk_def example_options_def)

subsection \<open>The batch summary\<close>

lemma batch_rate:
  assumes "results = map (\<lambda>q. fst (orchestrator_generate_mcqs stf svc q n d k)) queries"
    and "sum_list (map (\<lambda>r. length (mcqs r)) results) \<noteq> 0"
  shows "generate_mcqs_batch stf svc queries n d k =
           Inr (results,
                of_nat (sum_list (map (\<lambda>r. length (valid_mcqs r)) results))
                  / of_nat (sum_list (map (\<lambda>r. length (mcqs r)) results)) * 100)"
  using assms unfolding generate_mcqs_batch_def Let_def by simp

lemma batch_zero:
  assumes "sum_list (map (\<lambda>q. length (mcqs (fst (orchestrator_generate_mcqs stf svc q n d k))))
             queries) = 0"
  shows "generate_mcqs_batch stf svc queries n d k = Inl ZeroDivisionError"
  using assms unfolding generate_mcqs_batch_def Let_def by (simp add: comp_def)

text \<open>
  C1.  The code at the failing inputs: a batch whose queries produce no MCQ at all (no
  query, no context retrieved, or a generation response that does not parse) raises
  \<open>ZeroDivisionError\<close> in the summary instead of reporting 0.
\<close>

theorem batch_rate_divides_by_zero:
  "generate_mcqs_batch (\<lambda>s. None) no_context_services [] 3 None 5 = Inl ZeroDivisionError
   \<and> generate_mcqs_batch (\<lambda>s. None) no_context_services [''capitals'', ''rivers''] 3 None 5
       = Inl ZeroDivisionError
   \<and> generate_mcqs_batch (\<lambda>s. None) unparsable_services [''capitals''] 3 None 5
       = Inl ZeroDivisionError"
  by (simp add: generate_mcqs_batch_def orchestrator_generate_mcqs_def Let_def
        no_context_services_def unparsable_services_def generate_mcqs_def generate_try_def
        new_result_fields)

end
